theory Spec2Isabelle
  imports Main
begin

section \<open>Data model (core/models.py)\<close>

text \<open>
  The Django models are embedded as records, the relational store as a record of tables
  (maps from primary key to row). A \<^verbatim>\<open>DateField\<close> value is its day ordinal, so
  that the comparisons of \<^verbatim>\<open>datetime.date\<close> are those of \<open>int\<close>; the clock
  (\<^verbatim>\<open>date.today()\<close>) is an explicit argument. A
  \<^verbatim>\<open>DecimalField(max_digits=10, decimal_places=2)\<close> value is its number of
  hundredths, an \<open>int\<close>: 5.00 is 500, and the product of an integer and a decimal
  is exact (Python's \<^verbatim>\<open>Decimal\<close> rounds only beyond 28 significant digits).
  Python integers are \<open>int\<close>. The timestamp
  columns filled by the ORM (\<^verbatim>\<open>auto_now\<close>, \<^verbatim>\<open>auto_now_add\<close>) are left out.
  Foreign keys are held as the referenced primary key (Django's \<^verbatim>\<open>_id\<close> attribute).
\<close>

type_synonym date = int
type_synonym decimal2 = int

record user =
  username :: string
  email :: string
  password :: string
  role :: string
  is_staff :: bool

record room =
  number :: string
  capacity :: int
  price_per_night :: decimal2
  description :: string

record reservation =
  guest_id :: nat
  room_id :: nat
  check_in_date :: date
  check_out_date :: date
  status :: string

record inventory_item =
  name :: string
  quantity :: int
  price :: decimal2

record transaction =
  item_id :: nat
  quantity_sold :: int
  total_price :: decimal2

record payment =
  reservation_id :: nat
  amount :: decimal2
  payment_method :: string
  mobile_transaction_reference :: "string option"
  payment_status :: string

text \<open>
  The store. \<open>transaction_seq\<close> and \<open>payment_seq\<close> and \<open>item_seq\<close> are the tables'
  auto-increment sequences: the primary key the next INSERT receives. The rows of a
  table have keys below its sequence.
\<close>

record db =
  users :: "(nat \<times> user) list"
  rooms :: "nat \<rightharpoonup> room"
  reservations :: "nat \<rightharpoonup> reservation"
  items :: "nat \<rightharpoonup> inventory_item"
  item_seq :: nat
  transactions :: "nat \<rightharpoonup> transaction"
  transaction_seq :: nat
  payments :: "nat \<rightharpoonup> payment"
  payment_seq :: nat

text \<open>
  Exceptions are values. \<open>ValidationError\<close> is the serializer's object-level error
  (raised in a \<^verbatim>\<open>validate\<close> method, with its message); \<open>FieldErrors\<close> is the
  serializer's field-level error, a list of (field name, message). Both become a 400
  response. \<open>NotAuthenticated\<close> and \<open>PermissionDenied\<close> are what a failed permission
  check raises (401/403), \<open>Http404\<close> what \<^verbatim>\<open>get_object\<close> raises. The others
  are Python exceptions that no handler catches (a 500 response); \<open>ImproperlyConfigured\<close>
  is the one the framework raises for a serializer whose declared field name the model
  does not have, and carries that name.
\<close>

datatype exn =
    ValidationError string
  | FieldErrors "(string \<times> string) list"
  | NotAuthenticated
  | PermissionDenied
  | Http404
  | ValueError string
  | TypeError string
  | AttributeError string
  | IntegrityError string
  | ImproperlyConfigured string

datatype response = Response "(string \<times> string) list" nat

text \<open>The request: \<open>user = None\<close> is the anonymous user (no session).\<close>

record request =
  user :: "user option"

section \<open>Model methods (core/models.py)\<close>

definition STATUS_CHOICES :: "string list" where
  "STATUS_CHOICES = [''pending'', ''confirmed'', ''checked_in'', ''checked_out'']"

definition PAYMENT_METHOD_CHOICES :: "string list" where
  "PAYMENT_METHOD_CHOICES = [''cash'', ''mobile'', ''card'']"

definition ROLE_CHOICES :: "string list" where
  "ROLE_CHOICES = [''admin'', ''manager'', ''staff'']"

definition Reservation_save :: "nat \<Rightarrow> reservation \<Rightarrow> db \<Rightarrow> db" where
  "Reservation_save pk r d = d\<lparr>reservations := (reservations d)(pk \<mapsto> r)\<rparr>"

definition InventoryItem_save :: "nat \<Rightarrow> inventory_item \<Rightarrow> db \<Rightarrow> db" where
  "InventoryItem_save pk it d = d\<lparr>items := (items d)(pk \<mapsto> it)\<rparr>"

definition Payment_save :: "nat \<Rightarrow> payment \<Rightarrow> db \<Rightarrow> db" where
  "Payment_save pk p d = d\<lparr>payments := (payments d)(pk \<mapsto> p)\<rparr>"

text \<open>\<^verbatim>\<open>Reservation.clean\<close>: the model-level date rules.\<close>

definition Reservation_clean :: "date \<Rightarrow> reservation \<Rightarrow> exn + unit" where
  "Reservation_clean today r =
     (if check_in_date r < today then Inl (ValueError ''Check-in date cannot be in the past.'')
      else if check_out_date r \<le> check_in_date r
        then Inl (ValueError ''Check-out date must be after check-in date.'')
      else Inr ())"

text \<open>
  \<^verbatim>\<open>Reservation.check_in\<close> and \<^verbatim>\<open>Reservation.check_out\<close>, the model methods:
  a silent no-op from any other status. They take and return the instance and the store.
\<close>

definition Reservation_check_in :: "nat \<Rightarrow> reservation \<times> db \<Rightarrow> reservation \<times> db" where
  "Reservation_check_in pk = (\<lambda>(r, d).
     if status r = ''confirmed''
     then (let r' = r\<lparr>status := ''checked_in''\<rparr> in (r', Reservation_save pk r' d))
     else (r, d))"

definition Reservation_check_out :: "nat \<Rightarrow> reservation \<times> db \<Rightarrow> reservation \<times> db" where
  "Reservation_check_out pk = (\<lambda>(r, d).
     if status r = ''checked_in''
     then (let r' = r\<lparr>status := ''checked_out''\<rparr> in (r', Reservation_save pk r' d))
     else (r, d))"

text \<open>\<^verbatim>\<open>InventoryItem.clean\<close>.\<close>

definition InventoryItem_clean :: "inventory_item \<Rightarrow> exn + unit" where
  "InventoryItem_clean it =
     (if quantity it < 0 then Inl (ValueError ''Quantity cannot be negative.'')
      else if price it < 0 then Inl (ValueError ''Price cannot be negative.'')
      else Inr ())"

text \<open>
  \<^verbatim>\<open>Transaction.save\<close>. \<open>self.item\<close> is an object in memory, passed here as its
  primary key and its fields \<open>it\<close>; \<open>self.item.save()\<close> writes those fields to the
  row. The store is returned also when the method raises: nothing rolls a write back.
  The \<open>total_price\<close> the instance was built with is overwritten.
\<close>

definition Transaction_save ::
  "nat \<Rightarrow> inventory_item \<Rightarrow> transaction \<Rightarrow> db \<Rightarrow> db \<times> (exn + nat \<times> transaction)" where
  "Transaction_save ipk it t d =
     (if quantity it < quantity_sold t
      then (d, Inl (ValueError ''Not enough stock available for this transaction.''))
      else
        (let it' = it\<lparr>quantity := quantity it - quantity_sold t\<rparr>;
             d1 = InventoryItem_save ipk it' d;
             t' = t\<lparr>total_price := quantity_sold t * price it'\<rparr>;
             pk = transaction_seq d1
         in (d1\<lparr>transactions := (transactions d1)(pk \<mapsto> t'), transaction_seq := Suc pk\<rparr>,
             Inr (pk, t'))))"

text \<open>\<^verbatim>\<open>Transaction.objects.create(item=..., quantity_sold=..., total_price=...)\<close>:
  builds the instance and calls its \<^verbatim>\<open>save\<close>.\<close>

definition Transaction_objects_create ::
  "nat \<Rightarrow> inventory_item \<Rightarrow> int \<Rightarrow> decimal2 \<Rightarrow> db \<Rightarrow> db \<times> (exn + nat \<times> transaction)" where
  "Transaction_objects_create ipk it qs tp d =
     Transaction_save ipk it \<lparr>item_id = ipk, quantity_sold = qs, total_price = tp\<rparr> d"

text \<open>\<^verbatim>\<open>Payment.clean\<close> and \<^verbatim>\<open>Payment.mark_as_paid\<close>.\<close>

definition Payment_clean :: "payment \<Rightarrow> exn + unit" where
  "Payment_clean p =
     (if amount p \<le> 0 then Inl (ValueError ''Amount must be greater than zero.'') else Inr ())"

definition mark_as_paid :: "nat \<Rightarrow> payment \<times> db \<Rightarrow> payment \<times> db" where
  "mark_as_paid pk = (\<lambda>(p, d).
     if payment_status p = ''pending''
     then (let p' = p\<lparr>payment_status := ''completed''\<rparr> in (p', Payment_save pk p' d))
     else (p, d))"

section \<open>Permissions (core/permissions.py) and the permission gate\<close>

text \<open>
  \<open>AllowAny\<close> and \<open>IsAuthenticated\<close> are the framework's classes; \<open>IsAdmin\<close>,
  \<open>IsStaff\<close> and \<open>IsGuest\<close> are those of core/permissions.py, which read
  \<^verbatim>\<open>request.user.role\<close>: the anonymous user has no such attribute.
\<close>

datatype permission = AllowAny | IsAuthenticated | IsAdmin | IsStaff | IsGuest

fun has_permission :: "permission \<Rightarrow> request \<Rightarrow> exn + bool" where
  "has_permission AllowAny req = Inr True"
| "has_permission IsAuthenticated req = Inr (user req \<noteq> None)"
| "has_permission IsAdmin req =
     (case user req of None \<Rightarrow> Inl (AttributeError ''role'')
      | Some u \<Rightarrow> Inr (role u = ''admin''))"
| "has_permission IsStaff req =
     (case user req of None \<Rightarrow> Inl (AttributeError ''role'')
      | Some u \<Rightarrow> Inr (role u \<in> set [''admin'', ''staff'']))"
| "has_permission IsGuest req =
     (case user req of None \<Rightarrow> Inl (AttributeError ''role'')
      | Some u \<Rightarrow> Inr (role u = ''guest''))"

text \<open>
  The framework's \<^verbatim>\<open>check_permissions\<close>: the classes are asked in order and the
  first refusal raises, \<open>NotAuthenticated\<close> for a caller who is not signed in and
  \<open>PermissionDenied\<close> for one who is.
\<close>

fun check_permissions :: "permission list \<Rightarrow> request \<Rightarrow> exn + unit" where
  "check_permissions [] req = Inr ()"
| "check_permissions (p # ps) req =
     (case has_permission p req of
        Inl e \<Rightarrow> Inl e
      | Inr ok \<Rightarrow>
          if ok then check_permissions ps req
          else Inl (if user req = None then NotAuthenticated else PermissionDenied))"

text \<open>Every endpoint runs behind the gate: the handler runs only if the check passes.\<close>

definition dispatch ::
  "permission list \<Rightarrow> request \<Rightarrow> (db \<Rightarrow> db \<times> (exn + 'a)) \<Rightarrow> db \<Rightarrow> db \<times> (exn + 'a)" where
  "dispatch perms req handler d =
     (case check_permissions perms req of Inl e \<Rightarrow> (d, Inl e) | Inr _ \<Rightarrow> handler d)"

section \<open>Reservation endpoints (core/views.py, ReservationViewSet)\<close>

definition ReservationViewSet_permission_classes :: "permission list" where
  "ReservationViewSet_permission_classes = [IsAuthenticated]"

definition get_reservation :: "nat \<Rightarrow> db \<Rightarrow> exn + reservation" where
  "get_reservation pk d = (case reservations d pk of None \<Rightarrow> Inl Http404 | Some r \<Rightarrow> Inr r)"

definition ReservationViewSet_check_in :: "request \<Rightarrow> nat \<Rightarrow> db \<Rightarrow> db \<times> (exn + response)" where
  "ReservationViewSet_check_in req pk =
     dispatch ReservationViewSet_permission_classes req (\<lambda>d.
       case get_reservation pk d of
         Inl e \<Rightarrow> (d, Inl e)
       | Inr r \<Rightarrow>
           if status r \<noteq> ''confirmed''
           then (d, Inr (Response [(''error'', ''Reservation must be confirmed before check-in'')] 400))
           else (Reservation_save pk (r\<lparr>status := ''checked_in''\<rparr>) d,
                 Inr (Response [(''status'', ''checked in'')] 200)))"

definition ReservationViewSet_check_out :: "request \<Rightarrow> nat \<Rightarrow> db \<Rightarrow> db \<times> (exn + response)" where
  "ReservationViewSet_check_out req pk =
     dispatch ReservationViewSet_permission_classes req (\<lambda>d.
       case get_reservation pk d of
         Inl e \<Rightarrow> (d, Inl e)
       | Inr r \<Rightarrow>
           if status r \<noteq> ''checked_in''
           then (d, Inr (Response [(''error'', ''Reservation must be checked in before check-out'')] 400))
           else (Reservation_save pk (r\<lparr>status := ''checked_out''\<rparr>) d,
                 Inr (Response [(''status'', ''checked out'')] 200)))"

section \<open>Serializers (core/serializers.py)\<close>

text \<open>
  A model serializer validates a request in two stages: first each declared field on its
  own (presence, type, the validators the framework derives from the model field), all
  failures collected into one \<open>FieldErrors\<close>, with the framework's error codes as
  messages; then, only if no field failed, the serializer's own \<^verbatim>\<open>validate\<close>.
  The field stage is the framework's and is written out here from the model's field
  declarations; the \<^verbatim>\<open>validate\<close> and \<^verbatim>\<open>create\<close> methods are the source's.
\<close>

text \<open>
  Before either stage the serializer builds its fields from the names of
  \<^verbatim>\<open>Meta.fields\<close>, in order: a name that is no field of the model (and no other
  attribute of the model class) raises \<open>ImproperlyConfigured\<close>. \<open>build_fields\<close> takes
  the model's names and the declared names.
\<close>

fun build_fields :: "string list \<Rightarrow> string list \<Rightarrow> exn + unit" where
  "build_fields model_names [] = Inr ()"
| "build_fields model_names (f # fs) =
     (if f \<in> set model_names then build_fields model_names fs
      else Inl (ImproperlyConfigured f))"

subsection \<open>Python's \<^verbatim>\<open>str\<close> of an integer, for the f-string of the stock message\<close>

fun str_nat :: "nat \<Rightarrow> string" where
  "str_nat n =
     (if n < 10 then [char_of (48 + n)]
      else str_nat (n div 10) @ [char_of (48 + n mod 10)])"

declare str_nat.simps [simp del]

definition str_int :: "int \<Rightarrow> string" where
  "str_int i = (if i < 0 then CHR ''-'' # str_nat (nat (- i)) else str_nat (nat i))"

subsection \<open>TransactionSerializer\<close>

text \<open>
  A create request: the item's primary key and the quantity sold (both fields are
  required). The field stage resolves the primary key to the item
  (\<^verbatim>\<open>PrimaryKeyRelatedField\<close>) and applies the minimum 0 of
  \<^verbatim>\<open>PositiveIntegerField\<close> (the validator the framework derives from the
  field's range on the database).
\<close>

record transaction_data =
  t_item :: nat
  t_quantity_sold :: int

definition TransactionSerializer_to_internal_value ::
  "db \<Rightarrow> transaction_data \<Rightarrow> exn + (nat \<times> inventory_item) \<times> int" where
  "TransactionSerializer_to_internal_value d data =
     (let qerrs = (if t_quantity_sold data < 0 then [(''quantity_sold'', ''min_value'')] else [])
      in case items d (t_item data) of
           None \<Rightarrow> Inl (FieldErrors ((''item'', ''does_not_exist'') # qerrs))
         | Some it \<Rightarrow>
             if qerrs \<noteq> [] then Inl (FieldErrors qerrs)
             else Inr ((t_item data, it), t_quantity_sold data))"

definition TransactionSerializer_validate ::
  "(nat \<times> inventory_item) \<times> int \<Rightarrow> exn + (nat \<times> inventory_item) \<times> int" where
  "TransactionSerializer_validate = (\<lambda>((ipk, it), qs).
     if quantity it < qs
     then Inl (ValidationError (''Only '' @ str_int (quantity it) @ '' items are available in stock.''))
     else Inr ((ipk, it), qs))"

definition TransactionSerializer_run_validation ::
  "db \<Rightarrow> transaction_data \<Rightarrow> exn + (nat \<times> inventory_item) \<times> int" where
  "TransactionSerializer_run_validation d data =
     (case TransactionSerializer_to_internal_value d data of
        Inl e \<Rightarrow> Inl e
      | Inr v \<Rightarrow> TransactionSerializer_validate v)"

text \<open>
  \<^verbatim>\<open>TransactionSerializer.create\<close>: deducts the quantity from the item, saves the
  item, computes the total, then creates the transaction through the model, whose
  \<^verbatim>\<open>save\<close> runs on the very item object this method has just changed.
\<close>

definition TransactionSerializer_create ::
  "(nat \<times> inventory_item) \<times> int \<Rightarrow> db \<Rightarrow> db \<times> (exn + nat \<times> transaction)" where
  "TransactionSerializer_create = (\<lambda>((ipk, it), qs) d.
     let it1 = it\<lparr>quantity := quantity it - qs\<rparr>;
         d1 = InventoryItem_save ipk it1 d;
         tp = qs * price it1
     in Transaction_objects_create ipk it1 qs tp d1)"

subsection \<open>ReservationSerializer\<close>

text \<open>
  The request data of a reservation: the model fields the serializer declares. A field
  the request does not carry is \<open>None\<close>; \<open>partial\<close> is True for PATCH, where no
  field is required. \<open>status\<close> has a model default and is never required.
\<close>

record reservation_data =
  d_room :: "nat option"
  d_check_in_date :: "date option"
  d_check_out_date :: "date option"
  d_status :: "string option"

text \<open>
  The fields of the \<^verbatim>\<open>Reservation\<close> model, and the names the serializer's
  \<^verbatim>\<open>Meta.fields\<close> declares: \<^verbatim>\<open>guest_name\<close> and \<^verbatim>\<open>total_price\<close> are
  no fields (and no methods or attributes) of the model.
\<close>

definition Reservation_field_names :: "string list" where
  "Reservation_field_names =
     [''id'', ''guest'', ''room'', ''check_in_date'', ''check_out_date'', ''status'']"

definition ReservationSerializer_Meta_fields :: "string list" where
  "ReservationSerializer_Meta_fields =
     [''id'', ''guest_name'', ''room'', ''check_in_date'', ''check_out_date'', ''status'',
      ''total_price'']"

text \<open>The field stage, for the declared names that are writable model fields.\<close>

definition required_error :: "bool \<Rightarrow> string \<Rightarrow> 'a option \<Rightarrow> (string \<times> string) list" where
  "required_error partial field v =
     (if v = None \<and> \<not> partial then [(field, ''required'')] else [])"

definition ReservationSerializer_field_errors ::
  "bool \<Rightarrow> db \<Rightarrow> reservation_data \<Rightarrow> (string \<times> string) list" where
  "ReservationSerializer_field_errors partial d data =
     (case d_room data of
        None \<Rightarrow> required_error partial ''room'' (d_room data)
      | Some k \<Rightarrow> if rooms d k = None then [(''room'', ''does_not_exist'')] else [])
     @ required_error partial ''check_in_date'' (d_check_in_date data)
     @ required_error partial ''check_out_date'' (d_check_out_date data)
     @ (case d_status data of
          None \<Rightarrow> []
        | Some s \<Rightarrow> if s \<in> set STATUS_CHOICES then [] else [(''status'', ''invalid_choice'')])"

text \<open>
  \<^verbatim>\<open>ReservationSerializer.validate\<close>. \<^verbatim>\<open>data.get\<close> gives None for a field the
  request did not carry, and comparing None with a date raises TypeError.
\<close>

definition ReservationSerializer_validate :: "date \<Rightarrow> reservation_data \<Rightarrow> exn + reservation_data" where
  "ReservationSerializer_validate today data =
     (case d_check_in_date data of
        None \<Rightarrow> Inl (TypeError ''< not supported between NoneType and datetime.date'')
      | Some ci \<Rightarrow>
          if ci < today then Inl (ValidationError ''Check-in date cannot be in the past.'')
          else (case d_check_out_date data of
                  None \<Rightarrow> Inl (TypeError ''<= not supported between NoneType and datetime.date'')
                | Some co \<Rightarrow>
                    if co \<le> ci
                    then Inl (ValidationError ''Check-out date must be after check-in date.'')
                    else Inr data))"

definition ReservationSerializer_run_validation ::
  "bool \<Rightarrow> date \<Rightarrow> db \<Rightarrow> reservation_data \<Rightarrow> exn + reservation_data" where
  "ReservationSerializer_run_validation partial today d data =
     (case build_fields Reservation_field_names ReservationSerializer_Meta_fields of
        Inl e \<Rightarrow> Inl e
      | Inr _ \<Rightarrow>
          (let errs = ReservationSerializer_field_errors partial d data
           in if errs \<noteq> [] then Inl (FieldErrors errs)
              else ReservationSerializer_validate today data))"

text \<open>The inherited \<^verbatim>\<open>update\<close>: every validated field is set on the instance.\<close>

definition ReservationSerializer_update :: "reservation \<Rightarrow> reservation_data \<Rightarrow> reservation" where
  "ReservationSerializer_update r v =
     r\<lparr>room_id := (case d_room v of None \<Rightarrow> room_id r | Some k \<Rightarrow> k),
       check_in_date := (case d_check_in_date v of None \<Rightarrow> check_in_date r | Some x \<Rightarrow> x),
       check_out_date := (case d_check_out_date v of None \<Rightarrow> check_out_date r | Some x \<Rightarrow> x),
       status := (case d_status v of None \<Rightarrow> status r | Some s \<Rightarrow> s)\<rparr>"

text \<open>
  The inherited \<^verbatim>\<open>create\<close> inserts a row built from the validated fields. The
  serializer declares no guest field and the view set passes none, so the row has no
  guest, which the non-null foreign key of the model refuses.
\<close>

definition Reservation_objects_create ::
  "reservation_data \<Rightarrow> db \<Rightarrow> db \<times> (exn + nat \<times> reservation)" where
  "Reservation_objects_create v d =
     (d, Inl (IntegrityError ''NOT NULL constraint failed: core_reservation.guest_id''))"

subsection \<open>PaymentSerializer\<close>

record payment_data =
  v_reservation :: nat
  v_amount :: decimal2
  v_payment_method :: string
  v_payment_status :: "string option"

definition PaymentSerializer_validate_amount :: "decimal2 \<Rightarrow> exn + decimal2" where
  "PaymentSerializer_validate_amount v =
     (if v \<le> 0 then Inl (ValidationError ''Amount must be greater than zero.'') else Inr v)"

text \<open>
  \<^verbatim>\<open>reservation\<close> is a \<^verbatim>\<open>OneToOneField\<close>: the column is unique. Whether a
  reservation already has a payment is found by going through the rows of the table.
\<close>

definition reservation_has_payment :: "db \<Rightarrow> nat \<Rightarrow> bool" where
  "reservation_has_payment d r =
     list_ex (\<lambda>k. case payments d k of None \<Rightarrow> False | Some p \<Rightarrow> reservation_id p = r)
       [0..<payment_seq d]"

definition PaymentSerializer_Meta_fields :: "string list" where
  "PaymentSerializer_Meta_fields =
     [''reservation'', ''amount'', ''payment_method'', ''payment_status'', ''payment_date'']"

text \<open>
  The names a keyword argument of \<^verbatim>\<open>Payment(...)\<close> may have: the model's fields.
  Any other raises TypeError.
\<close>

definition Payment_field_names :: "string list" where
  "Payment_field_names = [''id'', ''reservation'', ''amount'', ''payment_method'',
     ''payment_date'', ''mobile_transaction_reference'', ''payment_status'']"

text \<open>
  \<^verbatim>\<open>PaymentSerializer.create\<close>. \<open>kwargs\<close> are the names of the entries that
  \<^verbatim>\<open>serializer.save(**kwargs)\<close> added to the validated data beside the serializer's
  own fields: \<^verbatim>\<open>create\<close> passes them all to \<^verbatim>\<open>Payment.objects.create\<close>, which
  builds the instance (TypeError on a name the model does not have) and inserts the row
  (IntegrityError when the reservation already has a payment), with the status of the
  request (default pending). Then the status is set from the method and the row saved
  again.
\<close>

definition PaymentSerializer_create ::
  "payment_data \<Rightarrow> string list \<Rightarrow> db \<Rightarrow> db \<times> (exn + nat \<times> payment)" where
  "PaymentSerializer_create v kwargs d =
     (if \<not> list_all (\<lambda>k. k \<in> set Payment_field_names) kwargs
      then (d, Inl (TypeError ''Payment() got unexpected keyword arguments''))
      else if reservation_has_payment d (v_reservation v)
      then (d, Inl (IntegrityError ''UNIQUE constraint failed: core_payment.reservation_id''))
      else
        (let p0 = \<lparr>reservation_id = v_reservation v, amount = v_amount v,
                   payment_method = v_payment_method v, mobile_transaction_reference = None,
                   payment_status = (case v_payment_status v of None \<Rightarrow> ''pending'' | Some s \<Rightarrow> s)\<rparr>;
             pk = payment_seq d;
             d1 = (Payment_save pk p0 d)\<lparr>payment_seq := Suc pk\<rparr>;
             p1 = (if payment_method p0 = ''cash'' \<or> payment_method p0 = ''mobile''
                   then p0\<lparr>payment_status := ''completed''\<rparr>
                   else p0\<lparr>payment_status := ''pending''\<rparr>)
         in (Payment_save pk p1 d1, Inr (pk, p1))))"

text \<open>
  The validation of a payment request: the serializer's fields are built, then the field
  stage (the reservation exists and has no payment yet; the amount has at most 10
  digits and passes \<^verbatim>\<open>validate_amount\<close>; the method is one of the choices; the
  status, if given, is 1 to 50 characters). The serializer has no \<^verbatim>\<open>validate\<close>.
\<close>

definition PaymentSerializer_field_errors :: "db \<Rightarrow> payment_data \<Rightarrow> (string \<times> string) list" where
  "PaymentSerializer_field_errors d data =
     (if reservations d (v_reservation data) = None then [(''reservation'', ''does_not_exist'')]
      else if reservation_has_payment d (v_reservation data) then [(''reservation'', ''unique'')]
      else [])
     @ (if 10 ^ 10 \<le> \<bar>v_amount data\<bar> then [(''amount'', ''max_digits'')]
        else (case PaymentSerializer_validate_amount (v_amount data) of
                Inl (ValidationError m) \<Rightarrow> [(''amount'', m)]
              | _ \<Rightarrow> []))
     @ (if v_payment_method data \<in> set PAYMENT_METHOD_CHOICES then []
        else [(''payment_method'', ''invalid_choice'')])
     @ (case v_payment_status data of
          None \<Rightarrow> []
        | Some s \<Rightarrow>
            if s = [] then [(''payment_status'', ''blank'')]
            else if 50 < length s then [(''payment_status'', ''max_length'')] else [])"

definition PaymentSerializer_run_validation :: "db \<Rightarrow> payment_data \<Rightarrow> exn + payment_data" where
  "PaymentSerializer_run_validation d data =
     (case build_fields Payment_field_names PaymentSerializer_Meta_fields of
        Inl e \<Rightarrow> Inl e
      | Inr _ \<Rightarrow>
          (let errs = PaymentSerializer_field_errors d data
           in if errs \<noteq> [] then Inl (FieldErrors errs) else Inr data))"

subsection \<open>InventoryItemSerializer\<close>

text \<open>
  The module defines \<^verbatim>\<open>InventoryItemSerializer\<close> twice. The first definition has the
  two field validators below.
\<close>

definition InventoryItemSerializer_validate_quantity :: "int \<Rightarrow> exn + int" where
  "InventoryItemSerializer_validate_quantity v =
     (if v < 0 then Inl (ValidationError ''Quantity cannot be negative.'') else Inr v)"

definition InventoryItemSerializer_validate_price :: "decimal2 \<Rightarrow> exn + decimal2" where
  "InventoryItemSerializer_validate_price v =
     (if v < 0 then Inl (ValidationError ''Price cannot be negative.'') else Inr v)"

text \<open>
  The second definition, at the end of the module, rebinds the name: it is the class
  core/views.py imports. It has \<^verbatim>\<open>fields = '__all__'\<close> and no method, so its
  validation is the field stage alone: a name of 1 to 255 characters, the minimum 0 of
  \<^verbatim>\<open>PositiveIntegerField\<close>, and at most 10 digits for the price.
\<close>

record inventory_data =
  i_name :: string
  i_quantity :: int
  i_price :: decimal2

definition InventoryItemSerializer_field_errors :: "inventory_data \<Rightarrow> (string \<times> string) list" where
  "InventoryItemSerializer_field_errors data =
     (if i_name data = [] then [(''name'', ''blank'')]
      else if 255 < length (i_name data) then [(''name'', ''max_length'')] else [])
     @ (if i_quantity data < 0 then [(''quantity'', ''min_value'')] else [])
     @ (if 10 ^ 10 \<le> \<bar>i_price data\<bar> then [(''price'', ''max_digits'')] else [])"

definition InventoryItemSerializer_run_validation :: "inventory_data \<Rightarrow> exn + inventory_item" where
  "InventoryItemSerializer_run_validation data =
     (let errs = InventoryItemSerializer_field_errors data
      in if errs \<noteq> [] then Inl (FieldErrors errs)
         else Inr \<lparr>name = i_name data, quantity = i_quantity data, price = i_price data\<rparr>)"

section \<open>View sets (core/views.py, core/api.py, core/urls.py)\<close>

text \<open>
  The router of core/urls.py registers \<^verbatim>\<open>UserViewSet\<close> of core/api.py and the
  reservation, inventory, transaction, report and payment view sets of core/views.py.
  The inventory and report view sets declare no \<^verbatim>\<open>permission_classes\<close>: theirs are
  the project's \<^verbatim>\<open>DEFAULT_PERMISSION_CLASSES\<close> setting, which is not part of the
  sources and is the parameter \<open>dflt\<close>.
\<close>

definition UserViewSet_permission_classes :: "permission list" where
  "UserViewSet_permission_classes = [AllowAny]"

definition TransactionViewSet_permission_classes :: "permission list" where
  "TransactionViewSet_permission_classes = [IsAuthenticated]"

definition PaymentViewSet_permission_classes :: "permission list" where
  "PaymentViewSet_permission_classes = [IsAuthenticated]"

definition InventoryItemViewSet_permission_classes :: "permission list \<Rightarrow> permission list" where
  "InventoryItemViewSet_permission_classes dflt = dflt"

definition ReportViewSet_permission_classes :: "permission list \<Rightarrow> permission list" where
  "ReportViewSet_permission_classes dflt = dflt"

text \<open>GET /users/: the list action of the model view set, with the serializer of
  core/api.py (id, username, email, password).\<close>

definition UserViewSet_list ::
  "request \<Rightarrow> db \<Rightarrow> db \<times> (exn + (nat \<times> string \<times> string \<times> string) list)" where
  "UserViewSet_list req =
     dispatch UserViewSet_permission_classes req (\<lambda>d.
       (d, Inr (map (\<lambda>(pk, u). (pk, username u, email u, password u)) (users d))))"

text \<open>POST /transactions/: validation, then \<^verbatim>\<open>perform_create\<close>, which saves the
  serializer (the extra \<^verbatim>\<open>user\<close> entry is ignored by the serializer's create).\<close>

definition TransactionViewSet_create ::
  "request \<Rightarrow> transaction_data \<Rightarrow> db \<Rightarrow> db \<times> (exn + nat \<times> transaction)" where
  "TransactionViewSet_create req data =
     dispatch TransactionViewSet_permission_classes req (\<lambda>d.
       case TransactionSerializer_run_validation d data of
         Inl e \<Rightarrow> (d, Inl e)
       | Inr v \<Rightarrow> TransactionSerializer_create v d)"

text \<open>POST /payments/: validation, then \<^verbatim>\<open>perform_create\<close>, which saves the
  serializer with the extra entry \<^verbatim>\<open>user\<close>.\<close>

definition PaymentViewSet_create ::
  "request \<Rightarrow> payment_data \<Rightarrow> db \<Rightarrow> db \<times> (exn + nat \<times> payment)" where
  "PaymentViewSet_create req data =
     dispatch PaymentViewSet_permission_classes req (\<lambda>d.
       case PaymentSerializer_run_validation d data of
         Inl e \<Rightarrow> (d, Inl e)
       | Inr v \<Rightarrow> PaymentSerializer_create v [''user''] d)"

text \<open>
  POST /reservations/ and PUT or PATCH /reservations/pk/. What saving a new reservation
  does after validation is the argument \<open>perform_create\<close> (the inherited create is
  \<open>Reservation_objects_create\<close>).
\<close>

definition ReservationViewSet_create ::
  "(reservation_data \<Rightarrow> db \<Rightarrow> db \<times> (exn + 'a)) \<Rightarrow> date \<Rightarrow> request \<Rightarrow> reservation_data \<Rightarrow>
     db \<Rightarrow> db \<times> (exn + 'a)" where
  "ReservationViewSet_create perform_create today req data =
     dispatch ReservationViewSet_permission_classes req (\<lambda>d.
       case ReservationSerializer_run_validation False today d data of
         Inl e \<Rightarrow> (d, Inl e)
       | Inr v \<Rightarrow> perform_create v d)"

definition ReservationViewSet_update ::
  "bool \<Rightarrow> date \<Rightarrow> request \<Rightarrow> nat \<Rightarrow> reservation_data \<Rightarrow> db \<Rightarrow> db \<times> (exn + nat \<times> reservation)" where
  "ReservationViewSet_update partial today req pk data =
     dispatch ReservationViewSet_permission_classes req (\<lambda>d.
       case get_reservation pk d of
         Inl e \<Rightarrow> (d, Inl e)
       | Inr r \<Rightarrow>
           (case ReservationSerializer_run_validation partial today d data of
              Inl e \<Rightarrow> (d, Inl e)
            | Inr v \<Rightarrow>
                (let r' = ReservationSerializer_update r v
                 in (Reservation_save pk r' d, Inr (pk, r')))))"

text \<open>POST /inventory/ and PUT /inventory/pk/, with the serializer the name is bound to.\<close>

definition InventoryItemViewSet_create ::
  "permission list \<Rightarrow> request \<Rightarrow> inventory_data \<Rightarrow> db \<Rightarrow> db \<times> (exn + nat \<times> inventory_item)" where
  "InventoryItemViewSet_create dflt req data =
     dispatch (InventoryItemViewSet_permission_classes dflt) req (\<lambda>d.
       case InventoryItemSerializer_run_validation data of
         Inl e \<Rightarrow> (d, Inl e)
       | Inr it \<Rightarrow>
           (let pk = item_seq d
            in ((InventoryItem_save pk it d)\<lparr>item_seq := Suc pk\<rparr>, Inr (pk, it))))"

definition InventoryItemViewSet_update ::
  "permission list \<Rightarrow> request \<Rightarrow> nat \<Rightarrow> inventory_data \<Rightarrow> db \<Rightarrow>
     db \<times> (exn + nat \<times> inventory_item)" where
  "InventoryItemViewSet_update dflt req pk data =
     dispatch (InventoryItemViewSet_permission_classes dflt) req (\<lambda>d.
       case items d pk of
         None \<Rightarrow> (d, Inl Http404)
       | Some _ \<Rightarrow>
           (case InventoryItemSerializer_run_validation data of
              Inl e \<Rightarrow> (d, Inl e)
            | Inr it \<Rightarrow> (InventoryItem_save pk it d, Inr (pk, it))))"

text \<open>
  The operations of the public interface on reservations, each with the clock and the
  request it runs with, and a run of them on the store.
\<close>

datatype reservation_op =
    Create reservation_data
  | Update bool nat reservation_data
  | CheckIn nat
  | CheckOut nat

fun reservation_step :: "date \<times> request \<times> reservation_op \<Rightarrow> db \<Rightarrow> db" where
  "reservation_step (today, req, Create data) d =
     fst (ReservationViewSet_create Reservation_objects_create today req data d)"
| "reservation_step (today, req, Update partial pk data) d =
     fst (ReservationViewSet_update partial today req pk data d)"
| "reservation_step (today, req, CheckIn pk) d = fst (ReservationViewSet_check_in req pk d)"
| "reservation_step (today, req, CheckOut pk) d = fst (ReservationViewSet_check_out req pk d)"

fun reservation_run :: "(date \<times> request \<times> reservation_op) list \<Rightarrow> db \<Rightarrow> db" where
  "reservation_run [] d = d"
| "reservation_run (c # cs) d = reservation_run cs (reservation_step c d)"

text \<open>
  The position of a status in the lifecycle pending, confirmed, checked_in, checked_out
  (4 for a string that is no status), and the moves forward the two transitions allow:
  none, confirmed to checked_in, checked_in to checked_out, and the two in a row.
\<close>

definition status_rank :: "string \<Rightarrow> nat" where
  "status_rank s = length (takeWhile (\<lambda>c. c \<noteq> s) STATUS_CHOICES)"

definition advances :: "string \<Rightarrow> string \<Rightarrow> bool" where
  "advances s s' =
     (s' = s
      \<or> s = ''confirmed'' \<and> (s' = ''checked_in'' \<or> s' = ''checked_out'')
      \<or> s = ''checked_in'' \<and> s' = ''checked_out'')"

section \<open>Example data\<close>

definition alice :: user where
  "alice = \<lparr>username = ''alice'', email = ''alice@example.org'',
            password = ''pbkdf2_sha256$x'', role = ''staff'', is_staff = False\<rparr>"

definition empty_db :: db where
  "empty_db = \<lparr>users = [], rooms = Map.empty, reservations = Map.empty, items = Map.empty,
     item_seq = 1, transactions = Map.empty, transaction_seq = 1, payments = Map.empty,
     payment_seq = 1\<rparr>"

definition stay :: "string \<Rightarrow> reservation" where
  "stay s = \<lparr>guest_id = 1, room_id = 1, check_in_date = 10, check_out_date = 12, status = s\<rparr>"

definition stay_db :: "string \<Rightarrow> db" where
  "stay_db s = empty_db\<lparr>users := [(1, alice)],
     rooms := [1 \<mapsto> \<lparr>number = ''101'', capacity = 2, price_per_night = 8000, description = []\<rparr>],
     reservations := [7 \<mapsto> stay s]\<rparr>"

definition bill :: "string \<Rightarrow> payment" where
  "bill s = \<lparr>reservation_id = 7, amount = 12000, payment_method = ''card'',
             mobile_transaction_reference = None, payment_status = s\<rparr>"

definition bill_db :: "string \<Rightarrow> db" where
  "bill_db s = empty_db\<lparr>payments := [3 \<mapsto> bill s], payment_seq := 4\<rparr>"

definition shop_db :: db where
  "shop_db = empty_db\<lparr>users := [(1, alice)],
     items := [1 \<mapsto> \<lparr>name = ''cola'', quantity = 10, price = 500\<rparr>], item_seq := 2\<rparr>"

definition put_status :: "string \<Rightarrow> reservation_data" where
  "put_status s = \<lparr>d_room = Some 1, d_check_in_date = Some 10, d_check_out_date = Some 12,
                   d_status = Some s\<rparr>"

definition pay :: "string \<Rightarrow> string option \<Rightarrow> payment_data" where
  "pay m s = \<lparr>v_reservation = 7, v_amount = 12000, v_payment_method = m, v_payment_status = s\<rparr>"

definition paid :: "string \<Rightarrow> string \<Rightarrow> payment" where
  "paid m s = \<lparr>reservation_id = 7, amount = 12000, payment_method = m,
               mobile_transaction_reference = None, payment_status = s\<rparr>"

definition stay_ops :: "(date \<times> request \<times> reservation_op) list" where
  "stay_ops =
     [(5, \<lparr>user = Some alice\<rparr>, Update False 7 (put_status ''pending'')),
      (5, \<lparr>user = Some alice\<rparr>, CheckIn 7),
      (5, \<lparr>user = None\<rparr>, CheckOut 7),
      (5, \<lparr>user = Some alice\<rparr>, Create (put_status ''pending'')),
      (5, \<lparr>user = Some alice\<rparr>, CheckIn 7),
      (5, \<lparr>user = Some alice\<rparr>, CheckOut 7)]"

section \<open>Properties\<close>

lemma check_permissions_IsAuthenticated:
  "check_permissions [IsAuthenticated] req =
     (if user req = None then Inl NotAuthenticated else Inr ())"
  by simp

text \<open>
  C3. For a signed-in caller and an existing reservation, the check_in endpoint answers
  200 and stores status checked_in exactly when the current status is confirmed, and the
  check_out endpoint answers 200 and stores status checked_out exactly when the current
  status is checked_in; from every other status each answers 400 with an error message
  and leaves the store, hence the reservation's status, as it was.
\<close>

theorem C3_check_in_check_out_guarded:
  assumes "user req \<noteq> None" and "reservations d pk = Some r"
  shows "(status r = ''confirmed'' \<longrightarrow>
            ReservationViewSet_check_in req pk d =
              (d\<lparr>reservations := (reservations d)(pk \<mapsto> r\<lparr>status := ''checked_in''\<rparr>)\<rparr>,
               Inr (Response [(''status'', ''checked in'')] 200)))
       \<and> (status r \<noteq> ''confirmed'' \<longrightarrow>
            ReservationViewSet_check_in req pk d =
              (d, Inr (Response [(''error'', ''Reservation must be confirmed before check-in'')] 400)))
       \<and> (status r = ''checked_in'' \<longrightarrow>
            ReservationViewSet_check_out req pk d =
              (d\<lparr>reservations := (reservations d)(pk \<mapsto> r\<lparr>status := ''checked_out''\<rparr>)\<rparr>,
               Inr (Response [(''status'', ''checked out'')] 200)))
       \<and> (status r \<noteq> ''checked_in'' \<longrightarrow>
            ReservationViewSet_check_out req pk d =
              (d, Inr (Response [(''error'', ''Reservation must be checked in before check-out'')] 400)))"
  using assms
  by (simp add: ReservationViewSet_check_in_def ReservationViewSet_check_out_def dispatch_def
      ReservationViewSet_permission_classes_def get_reservation_def Reservation_save_def)

theorem C3_check_in_check_out_guarded_witness:
  "ReservationViewSet_check_in \<lparr>user = Some alice\<rparr> 7 (stay_db ''pending'') =
     (stay_db ''pending'',
      Inr (Response [(''error'', ''Reservation must be confirmed before check-in'')] 400))
   \<and> ReservationViewSet_check_in \<lparr>user = Some alice\<rparr> 7 (stay_db ''confirmed'') =
     (stay_db ''checked_in'', Inr (Response [(''status'', ''checked in'')] 200))
   \<and> ReservationViewSet_check_out \<lparr>user = Some alice\<rparr> 7 (stay_db ''checked_in'') =
     (stay_db ''checked_out'', Inr (Response [(''status'', ''checked out'')] 200))
   \<and> ReservationViewSet_check_out \<lparr>user = Some alice\<rparr> 7 (stay_db ''confirmed'') =
     (stay_db ''confirmed'',
      Inr (Response [(''error'', ''Reservation must be checked in before check-out'')] 400))"
  using C3_check_in_check_out_guarded [of "\<lparr>user = Some alice\<rparr>" "stay_db ''pending''" 7 "stay ''pending''"]
        C3_check_in_check_out_guarded [of "\<lparr>user = Some alice\<rparr>" "stay_db ''confirmed''" 7 "stay ''confirmed''"]
        C3_check_in_check_out_guarded [of "\<lparr>user = Some alice\<rparr>" "stay_db ''checked_in''" 7 "stay ''checked_in''"]
  by (simp add: stay_db_def stay_def empty_db_def)

subsection \<open>Stock deduction on sale\<close>

lemma str_int_10: "str_int 10 = ''10''"
  by code_simp

text \<open>
  C1. A signed-in caller posts a transaction for an existing item (whose stored quantity
  is not negative) with a quantity sold above the item's quantity: the creation fails
  with the serializer's validation error, whose message carries the available quantity,
  and the store is returned as it was, so the item's quantity is unchanged and no
  transaction is stored.
\<close>

theorem C1_insufficient_stock_rejected:
  assumes "user req \<noteq> None"
      and "items d (t_item data) = Some it"
      and "0 \<le> quantity it"
      and "quantity it < t_quantity_sold data"
  shows "TransactionViewSet_create req data d =
           (d, Inl (ValidationError
                      (''Only '' @ str_int (quantity it) @ '' items are available in stock.'')))"
  using assms
  by (simp add: TransactionViewSet_create_def dispatch_def TransactionViewSet_permission_classes_def
      TransactionSerializer_run_validation_def TransactionSerializer_to_internal_value_def
      TransactionSerializer_validate_def)

theorem C1_insufficient_stock_rejected_witness:
  "TransactionViewSet_create \<lparr>user = Some alice\<rparr> \<lparr>t_item = 1, t_quantity_sold = 11\<rparr> shop_db =
     (shop_db, Inl (ValidationError ''Only 10 items are available in stock.''))"
  using C1_insufficient_stock_rejected [of "\<lparr>user = Some alice\<rparr>" shop_db
      "\<lparr>t_item = 1, t_quantity_sold = 11\<rparr>" "\<lparr>name = ''cola'', quantity = 10, price = 500\<rparr>"]
  by (simp add: shop_db_def empty_db_def str_int_10)

text \<open>
  The model's own guard, \<^verbatim>\<open>Transaction.save\<close>, refuses the same case with a
  ValueError whose message is fixed, and also leaves the store as it was. On enough stock
  it deducts the quantity once and stores the total.
\<close>

lemma Transaction_save_insufficient:
  "quantity it < quantity_sold t \<Longrightarrow>
     Transaction_save ipk it t d =
       (d, Inl (ValueError ''Not enough stock available for this transaction.''))"
  by (simp add: Transaction_save_def)

lemma Transaction_save_sufficient:
  "quantity_sold t \<le> quantity it \<Longrightarrow>
     Transaction_save ipk it t d =
       (d\<lparr>items := (items d)(ipk \<mapsto> it\<lparr>quantity := quantity it - quantity_sold t\<rparr>),
          transactions := (transactions d)(transaction_seq d \<mapsto>
             t\<lparr>total_price := quantity_sold t * price it\<rparr>),
          transaction_seq := Suc (transaction_seq d)\<rparr>,
        Inr (transaction_seq d, t\<lparr>total_price := quantity_sold t * price it\<rparr>))"
  by (simp add: Transaction_save_def InventoryItem_save_def Let_def)

lemma TransactionViewSet_create_sufficient:
  assumes "user req \<noteq> None"
      and "items d (t_item data) = Some it"
      and "0 \<le> t_quantity_sold data"
      and "t_quantity_sold data \<le> quantity it"
  shows "TransactionViewSet_create req data d =
     (if quantity it - t_quantity_sold data < t_quantity_sold data
      then (d\<lparr>items := (items d)(t_item data \<mapsto> it\<lparr>quantity := quantity it - t_quantity_sold data\<rparr>)\<rparr>,
            Inl (ValueError ''Not enough stock available for this transaction.''))
      else (d\<lparr>items := (items d)(t_item data \<mapsto> it\<lparr>quantity := quantity it - 2 * t_quantity_sold data\<rparr>),
              transactions := (transactions d)(transaction_seq d \<mapsto>
                 \<lparr>item_id = t_item data, quantity_sold = t_quantity_sold data,
                  total_price = t_quantity_sold data * price it\<rparr>),
              transaction_seq := Suc (transaction_seq d)\<rparr>,
            Inr (transaction_seq d,
                 \<lparr>item_id = t_item data, quantity_sold = t_quantity_sold data,
                  total_price = t_quantity_sold data * price it\<rparr>)))"
  using assms
  by (simp add: TransactionViewSet_create_def dispatch_def TransactionViewSet_permission_classes_def
      TransactionSerializer_run_validation_def TransactionSerializer_to_internal_value_def
      TransactionSerializer_validate_def TransactionSerializer_create_def
      Transaction_objects_create_def Transaction_save_def InventoryItem_save_def Let_def)

text \<open>
  C2, evaluated on the specification's own scenario. The endpoint deducts the quantity
  twice, once in \<^verbatim>\<open>TransactionSerializer.create\<close> and once more in
  \<^verbatim>\<open>Transaction.save\<close>: with 10 in stock at 5.00, selling 3 leaves 4 (the total,
  15.00, is right), and selling 6 passes validation, stores the item with 4 left and then
  fails in \<^verbatim>\<open>Transaction.save\<close> with no transaction stored.
\<close>

theorem C2_double_deduction:
  "TransactionViewSet_create \<lparr>user = Some alice\<rparr> \<lparr>t_item = 1, t_quantity_sold = 3\<rparr> shop_db =
     (shop_db\<lparr>items := [1 \<mapsto> \<lparr>name = ''cola'', quantity = 4, price = 500\<rparr>],
              transactions := [1 \<mapsto> \<lparr>item_id = 1, quantity_sold = 3, total_price = 1500\<rparr>],
              transaction_seq := 2\<rparr>,
      Inr (1, \<lparr>item_id = 1, quantity_sold = 3, total_price = 1500\<rparr>))
   \<and> TransactionViewSet_create \<lparr>user = Some alice\<rparr> \<lparr>t_item = 1, t_quantity_sold = 6\<rparr> shop_db =
     (shop_db\<lparr>items := [1 \<mapsto> \<lparr>name = ''cola'', quantity = 4, price = 500\<rparr>]\<rparr>,
      Inl (ValueError ''Not enough stock available for this transaction.''))"
  by (simp add: TransactionViewSet_create_def dispatch_def TransactionViewSet_permission_classes_def
      TransactionSerializer_run_validation_def TransactionSerializer_to_internal_value_def
      TransactionSerializer_validate_def TransactionSerializer_create_def
      Transaction_objects_create_def Transaction_save_def InventoryItem_save_def Let_def
      shop_db_def empty_db_def)

text \<open>The model's \<^verbatim>\<open>save\<close> alone, on the same scenario, leaves 7.\<close>

lemma Transaction_save_example:
  "Transaction_save 1 \<lparr>name = ''cola'', quantity = 10, price = 500\<rparr>
       \<lparr>item_id = 1, quantity_sold = 3, total_price = 0\<rparr> shop_db =
     (shop_db\<lparr>items := [1 \<mapsto> \<lparr>name = ''cola'', quantity = 7, price = 500\<rparr>],
              transactions := [1 \<mapsto> \<lparr>item_id = 1, quantity_sold = 3, total_price = 1500\<rparr>],
              transaction_seq := 2\<rparr>,
      Inr (1, \<lparr>item_id = 1, quantity_sold = 3, total_price = 1500\<rparr>))"
  by (simp add: Transaction_save_def InventoryItem_save_def Let_def shop_db_def empty_db_def)

subsection \<open>Payments\<close>

text \<open>
  C9. \<^verbatim>\<open>mark_as_paid\<close> turns a pending payment into a completed one and saves it;
  on a completed payment it changes neither the instance nor the store; applying it
  twice is the same as applying it once, whatever the status.
\<close>

theorem C9_mark_as_paid_idempotent:
  "(payment_status p = ''pending'' \<longrightarrow>
      mark_as_paid pk (p, d) =
        (p\<lparr>payment_status := ''completed''\<rparr>,
         d\<lparr>payments := (payments d)(pk \<mapsto> p\<lparr>payment_status := ''completed''\<rparr>)\<rparr>))
   \<and> (payment_status p = ''completed'' \<longrightarrow> mark_as_paid pk (p, d) = (p, d))
   \<and> mark_as_paid pk (mark_as_paid pk (p, d)) = mark_as_paid pk (p, d)"
  by (simp add: mark_as_paid_def Payment_save_def Let_def)

theorem C9_mark_as_paid_idempotent_witness:
  "mark_as_paid 3 (bill ''pending'', bill_db ''pending'') = (bill ''completed'', bill_db ''completed'')
   \<and> mark_as_paid 3 (bill ''completed'', bill_db ''completed'') = (bill ''completed'', bill_db ''completed'')
   \<and> mark_as_paid 3 (mark_as_paid 3 (bill ''pending'', bill_db ''pending'')) =
       mark_as_paid 3 (bill ''pending'', bill_db ''pending'')"
  using C9_mark_as_paid_idempotent [of "bill ''pending''" 3 "bill_db ''pending''"]
        C9_mark_as_paid_idempotent [of "bill ''completed''" 3 "bill_db ''completed''"]
  by (simp add: bill_def bill_db_def empty_db_def)

subsection \<open>Roles\<close>

text \<open>
  C10. For a signed-in user whose role is one of the declared choices admin, manager and
  staff, \<^verbatim>\<open>IsGuest.has_permission\<close> is False, so an endpoint whose only permission
  class is \<^verbatim>\<open>IsGuest\<close> refuses the request before its handler runs.
\<close>

theorem C10_IsGuest_denies_declared_roles:
  assumes "user req = Some u" and "role u \<in> set ROLE_CHOICES"
  shows "has_permission IsGuest req = Inr False
       \<and> check_permissions [IsGuest] req = Inl PermissionDenied
       \<and> dispatch [IsGuest] req handler d = (d, Inl PermissionDenied)"
  using assms by (auto simp: ROLE_CHOICES_def dispatch_def)

theorem C10_IsGuest_denies_declared_roles_witness:
  "user \<lparr>user = Some alice\<rparr> = Some alice \<and> role alice \<in> set ROLE_CHOICES
   \<and> has_permission IsGuest \<lparr>user = Some alice\<rparr> = Inr False
   \<and> check_permissions [IsGuest] \<lparr>user = Some alice\<rparr> = Inl PermissionDenied
   \<and> dispatch [IsGuest] \<lparr>user = Some alice\<rparr> (\<lambda>d. (d, Inr (users d))) (stay_db ''pending'')
       = (stay_db ''pending'', Inl PermissionDenied)"
proof -
  have h1: "user \<lparr>user = Some alice\<rparr> = Some alice" by simp
  have h2: "role alice \<in> set ROLE_CHOICES" by (simp add: alice_def ROLE_CHOICES_def)
  show ?thesis
    using h1 h2 C10_IsGuest_denies_declared_roles [OF h1 h2, of "\<lambda>d. (d, Inr (users d))" "stay_db ''pending''"]
    by simp
qed

subsection \<open>Reservation dates\<close>

text \<open>
  The serializer cannot build its fields: the second declared name, guest_name, is no
  field of the model. So validation raises before any rule is looked at, and creating
  or updating a reservation stores nothing.
\<close>

lemma ReservationSerializer_build_fields:
  "build_fields Reservation_field_names ReservationSerializer_Meta_fields =
     Inl (ImproperlyConfigured ''guest_name'')"
  by (simp add: Reservation_field_names_def ReservationSerializer_Meta_fields_def)

lemma ReservationSerializer_run_validation_raises:
  "ReservationSerializer_run_validation partial today d data =
     Inl (ImproperlyConfigured ''guest_name'')"
  by (simp add: ReservationSerializer_run_validation_def ReservationSerializer_build_fields)

lemma ReservationViewSet_create_store:
  "fst (ReservationViewSet_create perform_create today req data d) = d"
  by (simp add: ReservationViewSet_create_def dispatch_def
      ReservationSerializer_run_validation_raises split: sum.splits)

lemma ReservationViewSet_update_store:
  "fst (ReservationViewSet_update partial today req pk data d) = d"
  by (simp add: ReservationViewSet_update_def dispatch_def
      ReservationSerializer_run_validation_raises split: sum.splits)

lemma ReservationViewSet_create_raises:
  "user req \<noteq> None \<Longrightarrow>
     ReservationViewSet_create perform_create today req data d =
       (d, Inl (ImproperlyConfigured ''guest_name''))"
  by (simp add: ReservationViewSet_create_def dispatch_def
      ReservationViewSet_permission_classes_def ReservationSerializer_run_validation_raises)

lemma ReservationViewSet_update_raises:
  "user req \<noteq> None \<Longrightarrow> reservations d pk = Some r \<Longrightarrow>
     ReservationViewSet_update partial today req pk data d =
       (d, Inl (ImproperlyConfigured ''guest_name''))"
  by (simp add: ReservationViewSet_update_def dispatch_def get_reservation_def
      ReservationViewSet_permission_classes_def ReservationSerializer_run_validation_raises)

lemma ReservationSerializer_validate_dates:
  assumes "d_check_in_date data = Some ci" and "d_check_out_date data = Some co"
      and "ci < today \<or> co \<le> ci"
  shows "ReservationSerializer_validate today data =
           Inl (ValidationError (if ci < today then ''Check-in date cannot be in the past.''
                                 else ''Check-out date must be after check-in date.''))"
  using assms by (auto simp: ReservationSerializer_validate_def)

text \<open>
  C5, evaluated on the specification's own scenario. A signed-in caller asks for a
  reservation with check-in today and check-out today: the endpoint raises
  \<open>ImproperlyConfigured\<close> while the serializer builds its fields, not the validation
  error of the rule, which \<^verbatim>\<open>validate\<close> called on the same data gives; and a request
  with valid dates is refused in the same way.
\<close>

theorem C5_creation_raises_before_validation:
  "ReservationViewSet_create Reservation_objects_create 10 \<lparr>user = Some alice\<rparr>
       \<lparr>d_room = Some 1, d_check_in_date = Some 10, d_check_out_date = Some 10, d_status = None\<rparr>
       (stay_db ''pending'') =
     (stay_db ''pending'', Inl (ImproperlyConfigured ''guest_name''))
   \<and> ReservationSerializer_validate 10
       \<lparr>d_room = Some 1, d_check_in_date = Some 10, d_check_out_date = Some 10, d_status = None\<rparr> =
     Inl (ValidationError ''Check-out date must be after check-in date.'')
   \<and> ReservationViewSet_create Reservation_objects_create 10 \<lparr>user = Some alice\<rparr>
       \<lparr>d_room = Some 1, d_check_in_date = Some 10, d_check_out_date = Some 12, d_status = None\<rparr>
       (stay_db ''pending'') =
     (stay_db ''pending'', Inl (ImproperlyConfigured ''guest_name''))"
  by (simp add: ReservationViewSet_create_def dispatch_def
      ReservationViewSet_permission_classes_def ReservationSerializer_run_validation_def
      Reservation_field_names_def ReservationSerializer_Meta_fields_def
      ReservationSerializer_validate_def)

text \<open>The model's \<^verbatim>\<open>clean\<close> states the same two rules.\<close>

lemma Reservation_clean_dates:
  "check_in_date r < today \<or> check_out_date r \<le> check_in_date r \<Longrightarrow>
     Reservation_clean today r =
       Inl (ValueError (if check_in_date r < today then ''Check-in date cannot be in the past.''
                        else ''Check-out date must be after check-in date.''))"
  by (auto simp: Reservation_clean_def)

subsection \<open>Reservation status\<close>

lemma advances_refl: "advances s s"
  by (simp add: advances_def)

lemma advances_trans: "advances a b \<Longrightarrow> advances b c \<Longrightarrow> advances a c"
  by (auto simp: advances_def)

lemma advances_status_rank: "advances s s' \<Longrightarrow> status_rank s \<le> status_rank s'"
  by (auto simp: advances_def status_rank_def STATUS_CHOICES_def)

lemma check_in_step:
  assumes "reservations d pk = Some r"
  shows "\<exists>s'. reservations (fst (ReservationViewSet_check_in req k d)) pk = Some (r\<lparr>status := s'\<rparr>)
            \<and> advances (status r) s'"
proof (cases "user req \<noteq> None \<and> k = pk \<and> status r = ''confirmed''")
  case True
  then have "reservations (fst (ReservationViewSet_check_in req k d)) pk =
      Some (r\<lparr>status := ''checked_in''\<rparr>)"
    using assms
    by (simp add: ReservationViewSet_check_in_def dispatch_def
        ReservationViewSet_permission_classes_def get_reservation_def Reservation_save_def)
  with True show ?thesis by (auto simp: advances_def)
next
  case False
  then have "reservations (fst (ReservationViewSet_check_in req k d)) pk = Some r"
    using assms
    by (auto simp: ReservationViewSet_check_in_def dispatch_def
        ReservationViewSet_permission_classes_def get_reservation_def Reservation_save_def
        split: option.splits)
  then have "reservations (fst (ReservationViewSet_check_in req k d)) pk =
      Some (r\<lparr>status := status r\<rparr>)" by simp
  then show ?thesis using advances_refl by blast
qed

lemma check_out_step:
  assumes "reservations d pk = Some r"
  shows "\<exists>s'. reservations (fst (ReservationViewSet_check_out req k d)) pk = Some (r\<lparr>status := s'\<rparr>)
            \<and> advances (status r) s'"
proof (cases "user req \<noteq> None \<and> k = pk \<and> status r = ''checked_in''")
  case True
  then have "reservations (fst (ReservationViewSet_check_out req k d)) pk =
      Some (r\<lparr>status := ''checked_out''\<rparr>)"
    using assms
    by (simp add: ReservationViewSet_check_out_def dispatch_def
        ReservationViewSet_permission_classes_def get_reservation_def Reservation_save_def)
  with True show ?thesis by (auto simp: advances_def)
next
  case False
  then have "reservations (fst (ReservationViewSet_check_out req k d)) pk = Some r"
    using assms
    by (auto simp: ReservationViewSet_check_out_def dispatch_def
        ReservationViewSet_permission_classes_def get_reservation_def Reservation_save_def
        split: option.splits)
  then have "reservations (fst (ReservationViewSet_check_out req k d)) pk =
      Some (r\<lparr>status := status r\<rparr>)" by simp
  then show ?thesis using advances_refl by blast
qed

lemma reservation_step_advances:
  assumes "reservations d pk = Some r"
  shows "\<exists>s'. reservations (reservation_step c d) pk = Some (r\<lparr>status := s'\<rparr>)
            \<and> advances (status r) s'"
proof -
  obtain today req op where c: "c = (today, req, op)" by (cases c) auto
  show ?thesis
  proof (cases op)
    case (Create data)
    have "reservations (reservation_step c d) pk = Some (r\<lparr>status := status r\<rparr>)"
      using assms by (simp add: c Create ReservationViewSet_create_store)
    then show ?thesis using advances_refl by blast
  next
    case (Update partial k data)
    have "reservations (reservation_step c d) pk = Some (r\<lparr>status := status r\<rparr>)"
      using assms by (simp add: c Update ReservationViewSet_update_store)
    then show ?thesis using advances_refl by blast
  next
    case (CheckIn k)
    then show ?thesis using check_in_step [OF assms] by (simp add: c)
  next
    case (CheckOut k)
    then show ?thesis using check_out_step [OF assms] by (simp add: c)
  qed
qed

lemma reservation_run_advances:
  "reservations d pk = Some r \<Longrightarrow>
     \<exists>s'. reservations (reservation_run cs d) pk = Some (r\<lparr>status := s'\<rparr>)
          \<and> advances (status r) s'"
proof (induction cs arbitrary: d r)
  case Nil
  have "reservations (reservation_run [] d) pk = Some (r\<lparr>status := status r\<rparr>)"
    using Nil by simp
  then show ?case using advances_refl by blast
next
  case (Cons c cs)
  from reservation_step_advances [OF Cons.prems, of c]
  obtain s1 where s1: "reservations (reservation_step c d) pk = Some (r\<lparr>status := s1\<rparr>)"
    and a1: "advances (status r) s1" by blast
  from Cons.IH [OF s1]
  obtain s2 where s2: "reservations (reservation_run cs (reservation_step c d)) pk =
      Some (r\<lparr>status := s1, status := s2\<rparr>)" and a2: "advances s1 s2" by auto
  have "reservations (reservation_run (c # cs) d) pk = Some (r\<lparr>status := s2\<rparr>)"
    using s2 by simp
  moreover have "advances (status r) s2" using a1 a2 by (rule advances_trans)
  ultimately show ?case by blast
qed

lemma stay_ops_run: "reservation_run stay_ops (stay_db ''confirmed'') = stay_db ''checked_out''"
  by (simp add: stay_ops_def ReservationViewSet_create_store ReservationViewSet_update_store
      ReservationViewSet_check_in_def ReservationViewSet_check_out_def dispatch_def
      ReservationViewSet_permission_classes_def get_reservation_def Reservation_save_def
      stay_db_def stay_def empty_db_def)

text \<open>
  C4. Whatever operations of the public interface run on the store (creations, full and
  partial updates, check_in and check_out, for any reservation, by any caller, at any
  date), a stored reservation stays stored, only its status can have changed, and the
  status has stayed or moved forward in the lifecycle: from confirmed to checked_in or
  checked_out, or from checked_in to checked_out. Its position in pending, confirmed,
  checked_in, checked_out never decreases.
\<close>

theorem C4_status_only_advances:
  assumes "reservations d pk = Some r"
  shows "\<exists>r'. reservations (reservation_run cs d) pk = Some r'
            \<and> r' = r\<lparr>status := status r'\<rparr>
            \<and> advances (status r) (status r')
            \<and> status_rank (status r) \<le> status_rank (status r')"
proof -
  from reservation_run_advances [OF assms, of cs]
  obtain s' where s: "reservations (reservation_run cs d) pk = Some (r\<lparr>status := s'\<rparr>)"
    and a: "advances (status r) s'" by blast
  from a have "status_rank (status r) \<le> status_rank s'" by (rule advances_status_rank)
  with s a show ?thesis by simp
qed

theorem C4_status_only_advances_witness:
  "reservations (stay_db ''confirmed'') 7 = Some (stay ''confirmed'')
   \<and> reservation_run stay_ops (stay_db ''confirmed'') = stay_db ''checked_out''
   \<and> reservations (stay_db ''checked_out'') 7 = Some (stay ''checked_out'')
   \<and> advances ''confirmed'' ''checked_out''
   \<and> status_rank ''confirmed'' \<le> status_rank ''checked_out''"
proof -
  have h: "reservations (stay_db ''confirmed'') 7 = Some (stay ''confirmed'')"
    by (simp add: stay_db_def empty_db_def)
  have o: "reservations (stay_db ''checked_out'') 7 = Some (stay ''checked_out'')"
    by (simp add: stay_db_def empty_db_def)
  from C4_status_only_advances [OF h, of stay_ops]
  have "advances (status (stay ''confirmed'')) (status (stay ''checked_out''))
      \<and> status_rank (status (stay ''confirmed'')) \<le> status_rank (status (stay ''checked_out''))"
    by (simp add: stay_ops_run o)
  then have "advances ''confirmed'' ''checked_out''
      \<and> status_rank ''confirmed'' \<le> status_rank ''checked_out''"
    by (simp add: stay_def)
  with h o stay_ops_run show ?thesis by simp
qed

subsection \<open>Payment status on creation\<close>

lemma PaymentSerializer_build_fields:
  "build_fields Payment_field_names PaymentSerializer_Meta_fields = Inr ()"
  by (simp add: Payment_field_names_def PaymentSerializer_Meta_fields_def)

lemma PaymentSerializer_create_user_kwarg:
  "PaymentSerializer_create v [''user''] d =
     (d, Inl (TypeError ''Payment() got unexpected keyword arguments''))"
  by (simp add: PaymentSerializer_create_def Payment_field_names_def)

lemma PaymentViewSet_create_never_creates:
  "\<exists>e. PaymentViewSet_create req data d = (d, Inl e)"
  by (simp add: PaymentViewSet_create_def dispatch_def PaymentSerializer_create_user_kwarg
      split: sum.splits)

lemma PaymentViewSet_create_valid_request:
  assumes "user req \<noteq> None" and "PaymentSerializer_field_errors d data = []"
  shows "PaymentViewSet_create req data d =
           (d, Inl (TypeError ''Payment() got unexpected keyword arguments''))"
  using assms
  by (simp add: PaymentViewSet_create_def dispatch_def PaymentViewSet_permission_classes_def
      PaymentSerializer_run_validation_def PaymentSerializer_build_fields
      PaymentSerializer_create_user_kwarg)

text \<open>
  C6, evaluated at a valid request for each method. \<^verbatim>\<open>PaymentViewSet.perform_create\<close>
  saves the serializer with the extra entry \<^verbatim>\<open>user\<close>, which
  \<^verbatim>\<open>PaymentSerializer.create\<close> passes on to the model: a signed-in caller's payment
  for a reservation that has none, by cash, mobile or card, raises TypeError and no
  payment is stored.
\<close>

theorem C6_payment_creation_raises:
  "PaymentViewSet_create \<lparr>user = Some alice\<rparr> (pay ''cash'' None) (stay_db ''confirmed'') =
     (stay_db ''confirmed'', Inl (TypeError ''Payment() got unexpected keyword arguments''))
   \<and> PaymentViewSet_create \<lparr>user = Some alice\<rparr> (pay ''mobile'' None) (stay_db ''confirmed'') =
     (stay_db ''confirmed'', Inl (TypeError ''Payment() got unexpected keyword arguments''))
   \<and> PaymentViewSet_create \<lparr>user = Some alice\<rparr> (pay ''card'' None) (stay_db ''confirmed'') =
     (stay_db ''confirmed'', Inl (TypeError ''Payment() got unexpected keyword arguments''))"
  by (simp add: PaymentViewSet_create_def dispatch_def PaymentViewSet_permission_classes_def
      PaymentSerializer_run_validation_def PaymentSerializer_field_errors_def
      PaymentSerializer_validate_amount_def reservation_has_payment_def
      Payment_field_names_def PaymentSerializer_Meta_fields_def PAYMENT_METHOD_CHOICES_def
      PaymentSerializer_create_def pay_def stay_db_def empty_db_def)

text \<open>
  Without the extra entry, \<^verbatim>\<open>PaymentSerializer.create\<close> stores the payment with the
  status the method gives, completed for cash and mobile and pending otherwise, for a
  reservation that has no payment yet, and raises IntegrityError for one that has.
\<close>

lemma PaymentSerializer_create_without_extra_entries:
  assumes "list_all (\<lambda>k. k \<in> set Payment_field_names) kwargs"
      and "\<not> reservation_has_payment d (v_reservation v)"
  shows "PaymentSerializer_create v kwargs d =
     (d\<lparr>payments := (payments d)(payment_seq d \<mapsto>
          \<lparr>reservation_id = v_reservation v, amount = v_amount v,
           payment_method = v_payment_method v, mobile_transaction_reference = None,
           payment_status = (if v_payment_method v = ''cash'' \<or> v_payment_method v = ''mobile''
                             then ''completed'' else ''pending'')\<rparr>),
        payment_seq := Suc (payment_seq d)\<rparr>,
      Inr (payment_seq d,
          \<lparr>reservation_id = v_reservation v, amount = v_amount v,
           payment_method = v_payment_method v, mobile_transaction_reference = None,
           payment_status = (if v_payment_method v = ''cash'' \<or> v_payment_method v = ''mobile''
                             then ''completed'' else ''pending'')\<rparr>))"
  using assms by (simp add: PaymentSerializer_create_def Payment_save_def Let_def)

lemma PaymentSerializer_create_second_payment:
  "reservation_has_payment d (v_reservation v) \<Longrightarrow>
   list_all (\<lambda>k. k \<in> set Payment_field_names) kwargs \<Longrightarrow>
   PaymentSerializer_create v kwargs d =
     (d, Inl (IntegrityError ''UNIQUE constraint failed: core_payment.reservation_id''))"
  by (simp add: PaymentSerializer_create_def)

lemma PaymentSerializer_create_example:
  "PaymentSerializer_create (pay ''cash'' None) [] (stay_db ''confirmed'') =
     ((stay_db ''confirmed'')\<lparr>payments := [1 \<mapsto> paid ''cash'' ''completed''], payment_seq := 2\<rparr>,
      Inr (1, paid ''cash'' ''completed''))
   \<and> PaymentSerializer_create (pay ''card'' (Some ''completed'')) [] (bill_db ''pending'') =
     (bill_db ''pending'',
      Inl (IntegrityError ''UNIQUE constraint failed: core_payment.reservation_id''))"
  by (simp add: PaymentSerializer_create_def Payment_save_def Let_def pay_def paid_def
      reservation_has_payment_def bill_db_def bill_def stay_db_def empty_db_def upt_rec)

subsection \<open>Inventory validation\<close>

text \<open>
  C7, evaluated at a request with a negative price. The serializer the inventory
  endpoints use is the second definition of \<^verbatim>\<open>InventoryItemSerializer\<close>, which has
  no \<^verbatim>\<open>validate_price\<close>: a signed-in caller creates, and updates, an item with
  price -1.00.
\<close>

theorem C7_negative_price_accepted:
  "InventoryItemViewSet_create [IsAuthenticated] \<lparr>user = Some alice\<rparr>
       \<lparr>i_name = ''cola'', i_quantity = 1, i_price = - 100\<rparr> shop_db =
     (shop_db\<lparr>items := (items shop_db)(2 \<mapsto> \<lparr>name = ''cola'', quantity = 1, price = - 100\<rparr>),
              item_seq := 3\<rparr>,
      Inr (2, \<lparr>name = ''cola'', quantity = 1, price = - 100\<rparr>))
   \<and> InventoryItemViewSet_update [IsAuthenticated] \<lparr>user = Some alice\<rparr> 1
       \<lparr>i_name = ''cola'', i_quantity = 10, i_price = - 100\<rparr> shop_db =
     (shop_db\<lparr>items := [1 \<mapsto> \<lparr>name = ''cola'', quantity = 10, price = - 100\<rparr>]\<rparr>,
      Inr (1, \<lparr>name = ''cola'', quantity = 10, price = - 100\<rparr>))"
  by (simp add: InventoryItemViewSet_create_def InventoryItemViewSet_update_def dispatch_def
      InventoryItemViewSet_permission_classes_def InventoryItemSerializer_run_validation_def
      InventoryItemSerializer_field_errors_def InventoryItem_save_def Let_def
      shop_db_def empty_db_def)

text \<open>
  The validators of the first definition and the model's \<^verbatim>\<open>clean\<close> refuse a
  negative price; a negative quantity is refused by the field stage.
\<close>

lemma negative_price_refused_by_shadowed_validators:
  "v < 0 \<Longrightarrow> InventoryItemSerializer_validate_price v =
      Inl (ValidationError ''Price cannot be negative.'')"
  "0 \<le> quantity it \<Longrightarrow> price it < 0 \<Longrightarrow>
     InventoryItem_clean it = Inl (ValueError ''Price cannot be negative.'')"
  by (simp_all add: InventoryItemSerializer_validate_price_def InventoryItem_clean_def)

lemma InventoryItemViewSet_negative_quantity:
  "i_quantity data < 0 \<Longrightarrow> check_permissions dflt req = Inr () \<Longrightarrow>
     \<exists>errs. InventoryItemViewSet_create dflt req data d = (d, Inl (FieldErrors errs))
       \<and> (''quantity'', ''min_value'') \<in> set errs"
  by (simp add: InventoryItemViewSet_create_def dispatch_def
      InventoryItemViewSet_permission_classes_def InventoryItemSerializer_run_validation_def
      InventoryItemSerializer_field_errors_def Let_def)

subsection \<open>Anonymous callers\<close>

lemma dispatch_anonymous_IsAuthenticated:
  "user req = None \<Longrightarrow> dispatch [IsAuthenticated] req handler d = (d, Inl NotAuthenticated)"
  by (simp add: dispatch_def)

text \<open>
  C8 does not hold as stated. GET /users/ is neither registration nor sign-in, and for
  the anonymous caller it returns every user's id, name, email and password hash: the
  view set's permission class is \<^verbatim>\<open>AllowAny\<close> for all its actions.
\<close>

theorem C8_users_open_to_anonymous:
  "UserViewSet_list \<lparr>user = None\<rparr> (stay_db ''pending'') =
     (stay_db ''pending'', Inr [(1, ''alice'', ''alice@example.org'', ''pbkdf2_sha256$x'')])"
  by (simp add: UserViewSet_list_def dispatch_def UserViewSet_permission_classes_def
      stay_db_def empty_db_def alice_def)

text \<open>
  C8 as amended. For the anonymous caller, every endpoint of the reservation,
  transaction and payment view sets, whatever its handler, is refused with
  \<open>NotAuthenticated\<close> and the store is as it was (so check_in, check_out, the creation
  and update of a reservation and the creation of a transaction); every endpoint of the
  user view set runs its handler.
\<close>

theorem C8_anonymous_access:
  assumes "user req = None"
  shows "dispatch ReservationViewSet_permission_classes req h1 d = (d, Inl NotAuthenticated)
       \<and> dispatch TransactionViewSet_permission_classes req h2 d = (d, Inl NotAuthenticated)
       \<and> dispatch PaymentViewSet_permission_classes req h3 d = (d, Inl NotAuthenticated)
       \<and> ReservationViewSet_check_in req pk d = (d, Inl NotAuthenticated)
       \<and> ReservationViewSet_check_out req pk d = (d, Inl NotAuthenticated)
       \<and> ReservationViewSet_create perform_create today req rdata d = (d, Inl NotAuthenticated)
       \<and> ReservationViewSet_update partial today req pk rdata d = (d, Inl NotAuthenticated)
       \<and> TransactionViewSet_create req tdata d = (d, Inl NotAuthenticated)
       \<and> dispatch UserViewSet_permission_classes req h4 d = h4 d"
  using assms
  by (simp add: dispatch_def ReservationViewSet_permission_classes_def
      TransactionViewSet_permission_classes_def PaymentViewSet_permission_classes_def
      UserViewSet_permission_classes_def ReservationViewSet_check_in_def
      ReservationViewSet_check_out_def ReservationViewSet_create_def
      ReservationViewSet_update_def TransactionViewSet_create_def)

theorem C8_anonymous_access_witness:
  "ReservationViewSet_check_in \<lparr>user = None\<rparr> 7 (stay_db ''confirmed'') =
     (stay_db ''confirmed'', Inl NotAuthenticated)
   \<and> TransactionViewSet_create \<lparr>user = None\<rparr> \<lparr>t_item = 1, t_quantity_sold = 3\<rparr> shop_db =
     (shop_db, Inl NotAuthenticated)
   \<and> dispatch UserViewSet_permission_classes \<lparr>user = None\<rparr> (\<lambda>d. (d, Inr (users d))) shop_db =
     (shop_db, Inr [(1, alice)])"
  using C8_anonymous_access [of "\<lparr>user = None\<rparr>" "\<lambda>d. (d, Inr ())" "stay_db ''confirmed''"
      "\<lambda>d. (d, Inr ())" "\<lambda>d. (d, Inr ())" 7 Reservation_objects_create 0
      "\<lparr>d_room = None, d_check_in_date = None, d_check_out_date = None, d_status = None\<rparr>"
      False "\<lparr>t_item = 1, t_quantity_sold = 3\<rparr>" "\<lambda>d. (d, Inr (users d))"]
    C8_anonymous_access [of "\<lparr>user = None\<rparr>" "\<lambda>d. (d, Inr ())" shop_db
      "\<lambda>d. (d, Inr ())" "\<lambda>d. (d, Inr ())" 7 Reservation_objects_create 0
      "\<lparr>d_room = None, d_check_in_date = None, d_check_out_date = None, d_status = None\<rparr>"
      False "\<lparr>t_item = 1, t_quantity_sold = 3\<rparr>" "\<lambda>d. (d, Inr (users d))"]
  by (simp add: shop_db_def empty_db_def)

end
